theory Spec2Isabelle
  imports Complex_Main
begin

section \<open>Data model (app/models.py)\<close>

text \<open>
  The tables of \<^verbatim>\<open>models.py\<close> as records, one list of rows per table. Columns keep
  their names; a column name used by several tables carries the table as a suffix
  (\<open>id_user\<close>, \<open>id_issue\<close>, \<open>id_note\<close>, \<open>id_machine\<close>, ...); the rows of \<^verbatim>\<open>Note\<close> are
  \<open>note_row\<close>, kept in \<open>notes_table\<close>. Role, service, status and urgency are strings, as
  the columns are. A nullable column is an \<open>option\<close>. A \<^verbatim>\<open>datetime\<close> is the number of
  microseconds since the epoch (its resolution in Python). The credential columns of
  \<^verbatim>\<open>User\<close> (matricule, e-mail, password hash) and the \<^verbatim>\<open>created_at\<close> of users and
  machines play no part in the operations below and are left out.
\<close>

type_synonym datetime = int

record user =
  id_user :: int
  user_id :: string
  name_user :: string
  service :: string
  role :: string
  is_active :: bool

record machine =
  id_machine :: int
  machine_id_machine :: string
  name_machine :: string
  location :: "string option"
  status_machine :: string

record issue =
  id_issue :: int
  issue_id :: string
  machine_id :: string
  description :: string
  urgency :: string
  status :: string
  reporter_id :: int
  assigned_tech_id :: "int option"
  created_at :: datetime
  accepted_at :: "datetime option"
  closed_at :: "datetime option"
  resolution :: "string option"
  problem_description :: "string option"

record note_row =
  id_note :: int
  text_note :: string
  created_at_note :: datetime
  issue_id_note :: int
  author_id :: int

record store =
  users :: "user list"
  machines :: "machine list"
  issues :: "issue list"
  notes_table :: "note_row list"

text \<open>
  The error responses of the handlers, named after the taxonomy of the specification;
  \<open>http_status\<close> gives the status code the handler returns with each.
\<close>

datatype error = ValidationError | Forbidden | NotFound | InvalidTransition | AlreadyClosed

fun http_status :: "error \<Rightarrow> nat" where
  "http_status ValidationError = 400"
| "http_status Forbidden = 403"
| "http_status NotFound = 404"
| "http_status InvalidTransition = 400"
| "http_status AlreadyClosed = 400"

text \<open>
  A handler takes the authenticated user (what \<^verbatim>\<open>token_required\<close> passes on), its
  arguments and the store, and returns its response with the store as committed. An
  error response is returned before anything is written, so it carries the store it
  was given. The events a handler emits on the socket after the commit change neither
  the response nor the store and are not part of the model.
\<close>

type_synonym 'a response = "error + 'a"

section \<open>Access control (app/api\_server.py, role\_required)\<close>

text \<open>
  \<^verbatim>\<open>if current_user.role not in roles and current_user.service not in roles: 403\<close>,
  otherwise the decorated handler runs.
\<close>

definition role_required ::
  "string list \<Rightarrow> (user \<Rightarrow> 'b \<Rightarrow> store \<Rightarrow> 'a response \<times> store)
    \<Rightarrow> user \<Rightarrow> 'b \<Rightarrow> store \<Rightarrow> 'a response \<times> store" where
  "role_required roles f current_user args st =
     (if role current_user \<notin> set roles \<and> service current_user \<notin> set roles
      then (Inl Forbidden, st)
      else f current_user args st)"

section \<open>Issue lifecycle (app/api\_server.py)\<close>

text \<open>\<^verbatim>\<open>Issue.query.filter_by(issue_id=issue_id).first()\<close>\<close>

definition issue_by_issue_id :: "store \<Rightarrow> string \<Rightarrow> issue option" where
  "issue_by_issue_id st iid = find (\<lambda>i. issue_id i = iid) (issues st)"

text \<open>
  Committing a changed row writes it back under its primary key; a new row gets the next
  primary key of its table (the largest one in use plus one, 1 in an empty table).
\<close>

definition commit_issue :: "issue \<Rightarrow> store \<Rightarrow> store" where
  "commit_issue i st =
     st\<lparr>issues := map (\<lambda>j. if id_issue j = id_issue i then i else j) (issues st)\<rparr>"

definition next_pk :: "int list \<Rightarrow> int" where
  "next_pk ks = (if ks = [] then 1 else Max (set ks) + 1)"

definition insert_note :: "string \<Rightarrow> int \<Rightarrow> int \<Rightarrow> datetime \<Rightarrow> store \<Rightarrow> store" where
  "insert_note txt ipk author note_time st =
     st\<lparr>notes_table := notes_table st @
        [\<lparr>id_note = next_pk (map id_note (notes_table st)), text_note = txt,
          created_at_note = note_time, issue_id_note = ipk, author_id = author\<rparr>]\<rparr>"

text \<open>
  The handlers read the clock twice, and both readings are arguments, a \<open>clock\<close>: the
  first component is the value of \<^verbatim>\<open>datetime.utcnow()\<close> in the handler's body, the second
  the column default \<^verbatim>\<open>created_at\<close> of the row inserted at the commit.
\<close>

type_synonym clock = "datetime \<times> datetime"

text \<open>
  \<^verbatim>\<open>assign_issue\<close>: the handler body, then the route with its decorator
  \<^verbatim>\<open>@role_required('maintenance', 'supervisor', 'team_leader')\<close>.
\<close>

definition assign_issue_body ::
  "clock \<Rightarrow> user \<Rightarrow> string \<Rightarrow> store \<Rightarrow> issue response \<times> store" where
  "assign_issue_body clk current_user iid st =
     (case issue_by_issue_id st iid of
        None \<Rightarrow> (Inl NotFound, st)
      | Some i \<Rightarrow>
          if status i \<notin> set [''reported'', ''assigned''] then (Inl InvalidTransition, st)
          else
            let i' = i\<lparr>assigned_tech_id := Some (id_user current_user),
                       status := ''assigned'',
                       accepted_at := Some (fst clk)\<rparr>;
                st' = insert_note ''Issue accepted and assigned'' (id_issue i)
                        (id_user current_user) (snd clk) (commit_issue i' st)
            in (Inr i', st'))"

definition assign_issue ::
  "clock \<Rightarrow> user \<Rightarrow> string \<Rightarrow> store \<Rightarrow> issue response \<times> store" where
  "assign_issue clk =
     role_required [''maintenance'', ''supervisor'', ''team_leader''] (assign_issue_body clk)"

text \<open>
  \<^verbatim>\<open>update_issue_status\<close> (PATCH \<^verbatim>\<open>/issues/:id/status\<close>), behind \<^verbatim>\<open>token_required\<close> only.
  The argument pairs the issue id of the URL with \<^verbatim>\<open>data.get('status')\<close>: \<open>None\<close> when the
  key is missing or null. The request body is taken to be a JSON object whose values are
  strings or null.
\<close>

definition valid_statuses :: "string list" where
  "valid_statuses = [''reported'', ''assigned'', ''in_progress'', ''closed'']"

definition update_issue_status ::
  "clock \<Rightarrow> user \<Rightarrow> string \<times> string option \<Rightarrow> store \<Rightarrow> issue response \<times> store" where
  "update_issue_status clk current_user args st =
     (case issue_by_issue_id st (fst args) of
        None \<Rightarrow> (Inl NotFound, st)
      | Some i \<Rightarrow>
          if role current_user = ''production'' then (Inl Forbidden, st)
          else if role current_user = ''maintenance''
                  \<and> assigned_tech_id i \<noteq> Some (id_user current_user)
          then (Inl Forbidden, st)
          else
            (case snd args of
               None \<Rightarrow> (Inl ValidationError, st)
             | Some new_status \<Rightarrow>
                 if new_status \<notin> set valid_statuses then (Inl ValidationError, st)
                 else
                   let i' = i\<lparr>status := new_status\<rparr>;
                       st' = insert_note (''Status changed to '' @ new_status) (id_issue i)
                               (id_user current_user) (snd clk) (commit_issue i' st)
                   in (Inr i', st')))"

text \<open>
  \<^verbatim>\<open>close_issue\<close>. The argument is the issue id with \<^verbatim>\<open>data.get('resolution')\<close> and
  \<^verbatim>\<open>data.get('problem_description')\<close>; \<open>truthy\<close> is Python's truth value of such a field
  (\<^verbatim>\<open>None\<close> and the empty string are false).
\<close>

definition truthy :: "string option \<Rightarrow> bool" where
  "truthy v = (case v of None \<Rightarrow> False | Some s \<Rightarrow> s \<noteq> [])"

definition close_issue_body ::
  "clock \<Rightarrow> user \<Rightarrow> string \<times> string option \<times> string option \<Rightarrow> store
    \<Rightarrow> issue response \<times> store" where
  "close_issue_body clk current_user args st =
     (case args of (iid, resolution_arg, problem_description_arg) \<Rightarrow>
      (case issue_by_issue_id st iid of
         None \<Rightarrow> (Inl NotFound, st)
       | Some i \<Rightarrow>
           if status i = ''closed'' then (Inl AlreadyClosed, st)
           else if role current_user = ''maintenance''
                   \<and> assigned_tech_id i \<noteq> Some (id_user current_user)
           then (Inl Forbidden, st)
           else
             (case resolution_arg of
                None \<Rightarrow> (Inl ValidationError, st)
              | Some res \<Rightarrow>
                  if res = [] then (Inl ValidationError, st)
                  else
                    let i1 = i\<lparr>status := ''closed'', closed_at := Some (fst clk),
                               resolution := Some res\<rparr>;
                        i' = (if truthy problem_description_arg
                              then i1\<lparr>problem_description := problem_description_arg\<rparr>
                              else i1);
                        st' = insert_note (''Issue closed. Resolution: '' @ res) (id_issue i)
                                (id_user current_user) (snd clk) (commit_issue i' st)
                    in (Inr i', st'))))"

definition close_issue ::
  "clock \<Rightarrow> user \<Rightarrow> string \<times> string option \<times> string option \<Rightarrow> store
    \<Rightarrow> issue response \<times> store" where
  "close_issue clk =
     role_required [''maintenance'', ''supervisor'', ''team_leader''] (close_issue_body clk)"

section \<open>Issue creation and its sequence id (create\_issue)\<close>

text \<open>
  The string operations the id generation uses. A \<open>char\<close> stands for the code point of
  the same number, so the strings covered are those of code points below 256; on these
  \<^verbatim>\<open>str.isdigit\<close> holds of the ten decimal digits and of the superscripts two, three and
  one (B2, B3, B9), and \<^verbatim>\<open>int\<close> raises \<^verbatim>\<open>ValueError\<close> on a string of digits that has a
  superscript in it.
\<close>

definition startswith :: "string \<Rightarrow> string \<Rightarrow> bool" where
  "startswith s p = (take (length p) s = p)"

text \<open>\<^verbatim>\<open>s.replace(old, '')\<close>: every occurrence of \<open>old\<close>, left to right, is deleted.\<close>

function str_remove :: "string \<Rightarrow> string \<Rightarrow> string" where
  "str_remove old [] = []"
| "str_remove old (c # cs) =
     (if old = [] then c # cs
      else if startswith (c # cs) old then str_remove old (drop (length old) (c # cs))
      else c # str_remove old cs)"
  by pat_completeness auto
termination
  by (relation "measure (\<lambda>(old, s). length s)") auto

definition is_decimal :: "char \<Rightarrow> bool" where
  "is_decimal c = (48 \<le> (of_char c :: nat) \<and> (of_char c :: nat) \<le> 57)"

definition char_isdigit :: "char \<Rightarrow> bool" where
  "char_isdigit c = (is_decimal c \<or> c = CHR 0xB2 \<or> c = CHR 0xB3 \<or> c = CHR 0xB9)"

definition str_isdigit :: "string \<Rightarrow> bool" where
  "str_isdigit s = (s \<noteq> [] \<and> list_all char_isdigit s)"

datatype py_error = ValueError

definition digit_value :: "char \<Rightarrow> int" where
  "digit_value c = int (of_char c) - 48"

definition int_of_str :: "string \<Rightarrow> py_error + int" where
  "int_of_str s =
     (if s \<noteq> [] \<and> list_all is_decimal s
      then Inr (fold (\<lambda>c n. 10 * n + digit_value c) s 0)
      else Inl ValueError)"

text \<open>The decimal digits of a natural number, and \<^verbatim>\<open>f'{n:03d}'\<close>.\<close>

fun decimal :: "nat \<Rightarrow> string" where
  "decimal n =
     (if n < 10 then [char_of (48 + n)] else decimal (n div 10) @ [char_of (48 + n mod 10)])"

definition format_03d :: "int \<Rightarrow> string" where
  "format_03d n =
     (if n < 0
      then CHR ''-'' # replicate (2 - length (decimal (nat (- n)))) (CHR ''0'')
             @ decimal (nat (- n))
      else replicate (3 - length (decimal (nat n))) (CHR ''0'') @ decimal (nat n))"

text \<open>
  The loop over \<^verbatim>\<open>Issue.query.all()\<close> that collects \<^verbatim>\<open>iss_numbers\<close>, and the id built
  from them.
\<close>

fun iss_numbers :: "issue list \<Rightarrow> int list" where
  "iss_numbers [] = []"
| "iss_numbers (i # rest) =
     (if startswith (issue_id i) ''ISS''
      then
        (let num_str = str_remove ''ISS'' (issue_id i)
         in if str_isdigit num_str
            then (case int_of_str num_str of
                    Inr n \<Rightarrow> n # iss_numbers rest
                  | Inl ValueError \<Rightarrow> iss_numbers rest)
            else iss_numbers rest)
      else iss_numbers rest)"

definition new_issue_id :: "issue list \<Rightarrow> string" where
  "new_issue_id all_issues =
     (let ns = iss_numbers all_issues
      in if ns \<noteq> [] then ''ISS'' @ format_03d (Max (set ns) + 1) else ''ISS001'')"

text \<open>
  \<^verbatim>\<open>create_issue\<close>. The body's fields \<^verbatim>\<open>machine_id\<close>, \<^verbatim>\<open>description\<close>, \<^verbatim>\<open>urgency\<close> are
  \<open>None\<close> when the key is missing. The new row takes the column defaults: status
  \<^verbatim>\<open>'reported'\<close>, \<^verbatim>\<open>created_at\<close> the time of the insert, every nullable column null.
\<close>

definition create_issue_body ::
  "clock \<Rightarrow> user \<Rightarrow> string option \<times> string option \<times> string option \<Rightarrow> store
    \<Rightarrow> issue response \<times> store" where
  "create_issue_body clk current_user args st =
     (case args of
        (Some mid, Some descr, Some urg) \<Rightarrow>
          if urg \<notin> set [''low'', ''medium'', ''high''] then (Inl ValidationError, st)
          else
            let i = \<lparr>id_issue = next_pk (map id_issue (issues st)),
                     issue_id = new_issue_id (issues st),
                     machine_id = mid, description = descr, urgency = urg,
                     status = ''reported'', reporter_id = id_user current_user,
                     assigned_tech_id = None, created_at = snd clk, accepted_at = None,
                     closed_at = None, resolution = None, problem_description = None\<rparr>
            in (Inr i, st\<lparr>issues := issues st @ [i]\<rparr>)
      | _ \<Rightarrow> (Inl ValidationError, st))"

definition create_issue ::
  "clock \<Rightarrow> user \<Rightarrow> string option \<times> string option \<times> string option \<Rightarrow> store
    \<Rightarrow> issue response \<times> store" where
  "create_issue clk =
     role_required [''production'', ''supervisor'', ''team_leader''] (create_issue_body clk)"

section \<open>Issue listing (get\_issues)\<close>

text \<open>
  The query string of \<^verbatim>\<open>GET /issues\<close>: a parameter that is absent is \<open>None\<close>; \<open>page\<close> and
  \<open>per_page\<close> are the integers read with their defaults 1 and 10.
\<close>

record issue_query =
  status_arg :: "string option"
  urgency_arg :: "string option"
  machine_id_arg :: "string option"
  page :: int
  per_page :: int
  date_arg :: "string option"

text \<open>\<^verbatim>\<open>s.split(sep)\<close> for a separator of one character.\<close>

fun str_split :: "char \<Rightarrow> string \<Rightarrow> string list" where
  "str_split sep [] = [[]]"
| "str_split sep (c # cs) =
     (if c = sep then [] # str_split sep cs
      else (case str_split sep cs of
              [] \<Rightarrow> [[c]]
            | w # ws \<Rightarrow> (c # w) # ws))"

text \<open>
  The base query: \<^verbatim>\<open>query(Issue, Machine.name).join(Machine, Issue.machine_id ==
  Machine.machine_id)\<close>, an inner join, one row for each issue and each machine of its
  machine id.
\<close>

definition base_query :: "store \<Rightarrow> (issue \<times> string) list" where
  "base_query st =
     concat (map (\<lambda>i. map (\<lambda>m. (i, name_machine m))
                          (filter (\<lambda>m. machine_id i = machine_id_machine m) (machines st)))
                 (issues st))"

text \<open>The filter by the caller's service, then the filters of the query string.\<close>

definition role_filter :: "user \<Rightarrow> issue \<Rightarrow> bool" where
  "role_filter current_user i =
     (if service current_user = ''production'' then reporter_id i = id_user current_user
      else True)"

definition status_filter :: "string option \<Rightarrow> issue \<Rightarrow> bool" where
  "status_filter a i =
     (if truthy a
      then (case a of
              Some s \<Rightarrow> if CHR '','' \<in> set s then status i \<in> set (str_split (CHR '','') s)
                        else status i = s
            | None \<Rightarrow> True)
      else True)"

definition urgency_filter :: "string option \<Rightarrow> issue \<Rightarrow> bool" where
  "urgency_filter a i = (if truthy a then Some (urgency i) = a else True)"

definition machine_filter :: "string option \<Rightarrow> issue \<Rightarrow> bool" where
  "machine_filter a i = (if truthy a then Some (machine_id i) = a else True)"

text \<open>
  The date filter. \<open>strptime_date\<close> stands for \<^verbatim>\<open>datetime.strptime(s, '%Y-%m-%d').date()\<close>:
  the midnight that starts the day, or \<open>None\<close> where it raises \<^verbatim>\<open>ValueError\<close> (then
  the filter is dropped). The next day starts 86400 seconds later.
\<close>

definition date_filter :: "(string \<Rightarrow> datetime option) \<Rightarrow> string option \<Rightarrow> issue \<Rightarrow> bool" where
  "date_filter strptime_date a i =
     (if truthy a
      then (case a of
              Some s \<Rightarrow>
                (case strptime_date s of
                   Some filter_date \<Rightarrow>
                     created_at i \<ge> filter_date
                     \<and> created_at i < filter_date + 86400 * 1000000
                 | None \<Rightarrow> True)
            | None \<Rightarrow> True)
      else True)"

definition filtered_query ::
  "(string \<Rightarrow> datetime option) \<Rightarrow> user \<Rightarrow> issue_query \<Rightarrow> store \<Rightarrow> (issue \<times> string) list" where
  "filtered_query strptime_date current_user q st =
     filter (\<lambda>r. role_filter current_user (fst r)
                 \<and> status_filter (status_arg q) (fst r)
                 \<and> urgency_filter (urgency_arg q) (fst r)
                 \<and> machine_filter (machine_id_arg q) (fst r)
                 \<and> date_filter strptime_date (date_arg q) (fst r))
            (base_query st)"

text \<open>
  \<^verbatim>\<open>order_by(Issue.created_at.desc(), urgency_order)\<close> as two stable sorts, the minor key
  first, and \<^verbatim>\<open>paginate(page, per_page, error_out=False)\<close> of Flask-SQLAlchemy: a page
  below 1 is page 1, a page size below 1 is 20, and the page is the slice of the ordered
  rows.
\<close>

definition urgency_order :: "issue \<Rightarrow> nat" where
  "urgency_order i =
     (if urgency i = ''high'' then 1
      else if urgency i = ''medium'' then 2
      else if urgency i = ''low'' then 3
      else 4)"

definition ordered :: "(issue \<times> string) list \<Rightarrow> (issue \<times> string) list" where
  "ordered rows =
     sort_key (\<lambda>r. - created_at (fst r)) (sort_key (\<lambda>r. urgency_order (fst r)) rows)"

definition paginate :: "int \<Rightarrow> int \<Rightarrow> 'a list \<Rightarrow> 'a list" where
  "paginate pg per rows =
     (let p = (if pg < 1 then 1 else pg);
          n = (if per < 1 then 20 else per)
      in take (nat n) (drop (nat ((p - 1) * n)) rows))"

text \<open>
  \<^verbatim>\<open>get_issues\<close>: the items of the page, each issue with its machine's name, and the
  total of the query.
\<close>

definition get_issues ::
  "(string \<Rightarrow> datetime option) \<Rightarrow> user \<Rightarrow> issue_query \<Rightarrow> store
    \<Rightarrow> (issue \<times> string) list \<times> nat" where
  "get_issues strptime_date current_user q st =
     (let rows = filtered_query strptime_date current_user q st
      in (paginate (page q) (per_page q) (ordered rows), length rows))"

section \<open>Analytics (analytics\_dashboard, analytics\_by\_technician)\<close>









text \<open>
  The rollup by technician: for each active user of the maintenance service, the issues
  assigned to them, the closed ones, and the average time of the closed ones with a
  closing time, taken from \<^verbatim>\<open>accepted_at\<close>. The sum runs over the issues that have an
  \<^verbatim>\<open>accepted_at\<close>; the divisor is the number of all of them.
\<close>

definition tech_closed_issues :: "store \<Rightarrow> user \<Rightarrow> issue list" where
  "tech_closed_issues st tech =
     filter (\<lambda>i. assigned_tech_id i = Some (id_user tech) \<and> status i = ''closed''
                 \<and> closed_at i \<noteq> None) (issues st)"






section \<open>The specification's arithmetic mean\<close>




section \<open>The specification's sequence id\<close>

text \<open>
  The specification's words for the id of a new issue: an id matches the format when it
  is \<^verbatim>\<open>ISS\<close> followed by one or more decimal digits, its numeric suffix is the number
  these digits write; the new id is \<^verbatim>\<open>ISS\<close> with the largest numeric suffix plus one,
  padded to three digits, and \<^verbatim>\<open>ISS001\<close> when no id matches. \<open>well_formed_id\<close> holds of
  an id that does not start with \<^verbatim>\<open>ISS\<close> or has nothing but decimal digits after it.
\<close>

definition spec_id_number :: "string \<Rightarrow> int option" where
  "spec_id_number s =
     (if startswith s ''ISS'' \<and> drop 3 s \<noteq> [] \<and> list_all is_decimal (drop 3 s)
      then Some (fold (\<lambda>c n. 10 * n + digit_value c) (drop 3 s) 0)
      else None)"

definition spec_new_issue_id :: "issue list \<Rightarrow> string" where
  "spec_new_issue_id xs =
     (let ns = List.map_filter spec_id_number (map issue_id xs)
      in if ns = [] then ''ISS001'' else ''ISS'' @ format_03d (Max (set ns) + 1))"

definition well_formed_id :: "string \<Rightarrow> bool" where
  "well_formed_id s = (if startswith s ''ISS'' then list_all is_decimal (drop 3 s) else True)"

section \<open>An invariant of the lifecycle\<close>

text \<open>
  Only \<^verbatim>\<open>assign_issue\<close> writes \<^verbatim>\<open>assigned_tech_id\<close>, and it writes \<^verbatim>\<open>accepted_at\<close> with it:
  in a store built by the handlers an issue with an assigned technician has an accepting
  time.
\<close>

definition accepted_when_assigned :: "store \<Rightarrow> bool" where
  "accepted_when_assigned st =
     list_all (\<lambda>i. assigned_tech_id i = None \<or> accepted_at i \<noteq> None) (issues st)"

section \<open>Example data\<close>

text \<open>
  The users: the production user of \<^verbatim>\<open>utils/create_user.py\<close> (service production, role
  technician), two technicians and a supervisor of the maintenance service. One machine.
  \<open>an_issue\<close> is a freshly reported issue of the production user on that machine, created
  at time 0; the other issues are variants of it. Times are in microseconds: one hour is
  3600000000.
\<close>

definition prod_user :: user where
  "prod_user = \<lparr>id_user = 1, user_id = ''PROD001'', name_user = ''Production User'',
                 service = ''production'', role = ''technician'', is_active = True\<rparr>"

definition tech_a :: user where
  "tech_a = \<lparr>id_user = 2, user_id = ''TECH001'', name_user = ''Technician A'',
              service = ''maintenance'', role = ''technician'', is_active = True\<rparr>"

definition tech_b :: user where
  "tech_b = \<lparr>id_user = 3, user_id = ''TECH002'', name_user = ''Technician B'',
              service = ''maintenance'', role = ''technician'', is_active = True\<rparr>"

definition supervisor :: user where
  "supervisor = \<lparr>id_user = 4, user_id = ''SUP001'', name_user = ''Supervisor'',
                  service = ''maintenance'', role = ''supervisor'', is_active = True\<rparr>"

definition mach1 :: machine where
  "mach1 = \<lparr>id_machine = 1, machine_id_machine = ''MACH001'', name_machine = ''Press'',
             location = None, status_machine = ''active''\<rparr>"

definition an_issue :: issue where
  "an_issue = \<lparr>id_issue = 1, issue_id = ''ISS001'', machine_id = ''MACH001'',
                description = ''Oil leak'', urgency = ''high'', status = ''reported'',
                reporter_id = 1, assigned_tech_id = None, created_at = 0,
                accepted_at = None, closed_at = None, resolution = None,
                problem_description = Some ''Seal worn''\<rparr>"

definition hour :: int where
  "hour = 3600000000"

definition clk0 :: clock where
  "clk0 = (5 * hour, 5 * hour + 1)"

definition store_of :: "issue list \<Rightarrow> store" where
  "store_of xs = \<lparr>users = [prod_user, tech_a, tech_b, supervisor], machines = [mach1],
                    issues = xs, notes_table = []\<rparr>"

text \<open>An issue assigned to technician B and accepted after one hour, and a closed one.\<close>

definition assigned_issue :: issue where
  "assigned_issue = an_issue\<lparr>status := ''assigned'', assigned_tech_id := Some 3,
                              accepted_at := Some hour\<rparr>"

definition closed_issue :: issue where
  "closed_issue = assigned_issue\<lparr>status := ''closed'', closed_at := Some (3 * hour),
                                  resolution := Some ''Seal replaced''\<rparr>"




text \<open>A second issue, reported by the supervisor one hour later.\<close>

definition supervisor_issue :: issue where
  "supervisor_issue = an_issue\<lparr>id_issue := 2, issue_id := ''ISS002'', reporter_id := 4,
                                urgency := ''low'', created_at := hour\<rparr>"

text \<open>A query without filters, first page of ten, and a date parser that knows no date.\<close>

definition q_all :: issue_query where
  "q_all = \<lparr>status_arg = None, urgency_arg = None, machine_id_arg = None, page = 1,
             per_page = 10, date_arg = None\<rparr>"

definition no_date :: "string \<Rightarrow> datetime option" where
  "no_date s = None"

section \<open>Auxiliary facts\<close>

lemma find_commit:
  assumes "find (\<lambda>j. issue_id j = iid) xs = Some i"
      and "issue_id i' = iid"
  shows "find (\<lambda>j. issue_id j = iid)
           (map (\<lambda>j. if id_issue j = id_issue i then i' else j) xs) = Some i'"
  using assms by (induction xs) (auto split: if_splits)

section \<open>Access control: the two-axis check\<close>

text \<open>
  Claim C6. For every user, every list of required roles and every decorated handler:
  when the user's role or the user's service is in the list, the decorated handler runs
  (the response and the store are the handler's); when neither is, the response is
  Forbidden and the store is the one given. Hence a handler that always succeeds is let
  through exactly when the role or the service is in the list.
\<close>

theorem role_required_two_axis:
  "(role u \<in> set roles \<or> service u \<in> set roles
      \<longrightarrow> role_required roles f u a st = f u a st)
   \<and> (role u \<notin> set roles \<and> service u \<notin> set roles
      \<longrightarrow> role_required roles f u a st = (Inl Forbidden, st))
   \<and> (fst (role_required roles (\<lambda>_ _ s. (Inr x, s)) u a st) = Inr x
        \<longleftrightarrow> role u \<in> set roles \<or> service u \<in> set roles)"
  by (auto simp: role_required_def)

text \<open>
  The production user (role technician) passes the gate of \<^verbatim>\<open>create_issue\<close> by the
  service; technician A of the maintenance service matches on neither axis.
\<close>

theorem role_required_two_axis_witness:
  "(role prod_user \<in> set [''production'', ''supervisor'', ''team_leader'']
      \<or> service prod_user \<in> set [''production'', ''supervisor'', ''team_leader''])
   \<and> role_required [''production'', ''supervisor'', ''team_leader''] (create_issue_body clk0)
         prod_user (Some ''MACH001'', Some ''Oil leak'', Some ''high'') (store_of [])
       = create_issue_body clk0 prod_user
           (Some ''MACH001'', Some ''Oil leak'', Some ''high'') (store_of [])
   \<and> (role tech_a \<notin> set [''production'', ''supervisor'', ''team_leader'']
      \<and> service tech_a \<notin> set [''production'', ''supervisor'', ''team_leader''])
   \<and> role_required [''production'', ''supervisor'', ''team_leader''] (create_issue_body clk0)
         tech_a (Some ''MACH001'', Some ''Oil leak'', Some ''high'') (store_of [])
       = (Inl Forbidden, store_of [])"
proof -
  have a: "role prod_user \<in> set [''production'', ''supervisor'', ''team_leader'']
           \<or> service prod_user \<in> set [''production'', ''supervisor'', ''team_leader'']"
    by code_simp
  have b: "role tech_a \<notin> set [''production'', ''supervisor'', ''team_leader'']
           \<and> service tech_a \<notin> set [''production'', ''supervisor'', ''team_leader'']"
    by code_simp
  note c = role_required_two_axis [THEN conjunct1, THEN mp, OF a]
  note d = role_required_two_axis [THEN conjunct2, THEN conjunct1, THEN mp, OF b]
  show ?thesis
    by (rule conjI [OF a conjI [OF c conjI [OF b d]]])
qed

section \<open>Assignment\<close>

text \<open>
  Claim C3. For a caller who passes the role gate of \<^verbatim>\<open>assign_issue\<close> and an issue id
  that names an issue of the store: when the issue's status is closed or in\_progress
  (indeed whenever it is neither reported nor assigned), the response is
  InvalidTransition and the store, with the issue and the notes, is the one given; and
  the assignment fails exactly when the status is neither reported nor assigned.
\<close>

theorem assign_issue_invalid_transition:
  assumes "role u \<in> set [''maintenance'', ''supervisor'', ''team_leader'']
           \<or> service u \<in> set [''maintenance'', ''supervisor'', ''team_leader'']"
      and "issue_by_issue_id st iid = Some i"
  shows "(status i = ''closed'' \<or> status i = ''in_progress''
            \<longrightarrow> assign_issue clk u iid st = (Inl InvalidTransition, st))
       \<and> (status i \<noteq> ''reported'' \<and> status i \<noteq> ''assigned''
            \<longrightarrow> assign_issue clk u iid st = (Inl InvalidTransition, st))
       \<and> (isl (fst (assign_issue clk u iid st))
            \<longleftrightarrow> status i \<noteq> ''reported'' \<and> status i \<noteq> ''assigned'')"
  using assms
  by (auto simp: assign_issue_def role_required_def assign_issue_body_def Let_def)

text \<open>Technician A tries to take over the closed issue.\<close>

theorem assign_issue_invalid_transition_witness:
  "(role tech_a \<in> set [''maintenance'', ''supervisor'', ''team_leader'']
      \<or> service tech_a \<in> set [''maintenance'', ''supervisor'', ''team_leader''])
   \<and> issue_by_issue_id (store_of [closed_issue]) ''ISS001'' = Some closed_issue
   \<and> status closed_issue = ''closed''
   \<and> assign_issue clk0 tech_a ''ISS001'' (store_of [closed_issue])
       = (Inl InvalidTransition, store_of [closed_issue])"
proof -
  have a: "role tech_a \<in> set [''maintenance'', ''supervisor'', ''team_leader'']
           \<or> service tech_a \<in> set [''maintenance'', ''supervisor'', ''team_leader'']"
    by code_simp
  have b: "issue_by_issue_id (store_of [closed_issue]) ''ISS001'' = Some closed_issue"
    by code_simp
  have c: "status closed_issue = ''closed''"
    by code_simp
  note d = assign_issue_invalid_transition [OF a b, THEN conjunct1, THEN mp, OF disjI1, OF c]
  show ?thesis
    by (rule conjI [OF a conjI [OF b conjI [OF c d]]])
qed

lemma issue_by_issue_id_D:
  "issue_by_issue_id st iid = Some i \<Longrightarrow> issue_id i = iid"
  unfolding issue_by_issue_id_def by (auto simp: find_Some_iff)

lemma issue_by_issue_id_commit:
  assumes "issue_by_issue_id st iid = Some i" and "issue_id i' = iid"
  shows "issue_by_issue_id
           (insert_note txt k a t (commit_issue (i'\<lparr>id_issue := id_issue i\<rparr>) st)) iid
           = Some (i'\<lparr>id_issue := id_issue i\<rparr>)"
  using assms find_commit [of iid "issues st" i "i'\<lparr>id_issue := id_issue i\<rparr>"]
  by (simp add: issue_by_issue_id_def insert_note_def commit_issue_def)

text \<open>
  Claim C4. For a caller who passes the role gate and an issue of the store whose status
  is reported or assigned, \<^verbatim>\<open>assign_issue\<close> succeeds: the response is the issue with the
  caller as assigned technician, status assigned and \<^verbatim>\<open>accepted_at\<close> the time of the
  call, and nothing else of it changed; the store holds that issue under the same id;
  exactly one note is appended, with the text "Issue accepted and assigned", the caller
  as author and the issue as owner; users and machines are as before.
\<close>

theorem assign_issue_success:
  assumes "role u \<in> set [''maintenance'', ''supervisor'', ''team_leader'']
           \<or> service u \<in> set [''maintenance'', ''supervisor'', ''team_leader'']"
      and "issue_by_issue_id st iid = Some i"
      and "status i = ''reported'' \<or> status i = ''assigned''"
  shows "fst (assign_issue clk u iid st)
           = Inr (i\<lparr>assigned_tech_id := Some (id_user u), status := ''assigned'',
                     accepted_at := Some (fst clk)\<rparr>)
       \<and> issue_by_issue_id (snd (assign_issue clk u iid st)) iid
           = Some (i\<lparr>assigned_tech_id := Some (id_user u), status := ''assigned'',
                      accepted_at := Some (fst clk)\<rparr>)
       \<and> issues (snd (assign_issue clk u iid st))
           = map (\<lambda>j. if id_issue j = id_issue i
                       then i\<lparr>assigned_tech_id := Some (id_user u), status := ''assigned'',
                              accepted_at := Some (fst clk)\<rparr>
                       else j) (issues st)
       \<and> notes_table (snd (assign_issue clk u iid st))
           = notes_table st @
             [\<lparr>id_note = next_pk (map id_note (notes_table st)),
               text_note = ''Issue accepted and assigned'', created_at_note = snd clk,
               issue_id_note = id_issue i, author_id = id_user u\<rparr>]
       \<and> users (snd (assign_issue clk u iid st)) = users st
       \<and> machines (snd (assign_issue clk u iid st)) = machines st"
proof -
  let ?i' = "i\<lparr>assigned_tech_id := Some (id_user u), status := ''assigned'',
                 accepted_at := Some (fst clk)\<rparr>"
  have run: "assign_issue clk u iid st
        = (Inr ?i', insert_note ''Issue accepted and assigned'' (id_issue i) (id_user u) (snd clk)
                     (commit_issue ?i' st))"
    using assms by (auto simp: assign_issue_def role_required_def assign_issue_body_def Let_def)
  have "issue_id ?i' = iid"
    using issue_by_issue_id_D [OF assms(2)] by simp
  then have look: "issue_by_issue_id
                     (insert_note ''Issue accepted and assigned'' (id_issue i) (id_user u) (snd clk)
                        (commit_issue ?i' st)) iid = Some ?i'"
    using issue_by_issue_id_commit [OF assms(2), of ?i'] by simp
  show ?thesis
    unfolding run using look by (simp add: insert_note_def commit_issue_def)
qed

text \<open>Technician A takes the freshly reported issue.\<close>

theorem assign_issue_success_witness:
  "(role tech_a \<in> set [''maintenance'', ''supervisor'', ''team_leader'']
      \<or> service tech_a \<in> set [''maintenance'', ''supervisor'', ''team_leader''])
   \<and> issue_by_issue_id (store_of [an_issue]) ''ISS001'' = Some an_issue
   \<and> (status an_issue = ''reported'' \<or> status an_issue = ''assigned'')
   \<and> fst (assign_issue clk0 tech_a ''ISS001'' (store_of [an_issue]))
       = Inr (an_issue\<lparr>assigned_tech_id := Some (id_user tech_a), status := ''assigned'',
                        accepted_at := Some (fst clk0)\<rparr>)
   \<and> notes_table (snd (assign_issue clk0 tech_a ''ISS001'' (store_of [an_issue])))
       = notes_table (store_of [an_issue]) @
         [\<lparr>id_note = next_pk (map id_note (notes_table (store_of [an_issue]))),
           text_note = ''Issue accepted and assigned'', created_at_note = snd clk0,
           issue_id_note = id_issue an_issue, author_id = id_user tech_a\<rparr>]"
proof -
  have a: "role tech_a \<in> set [''maintenance'', ''supervisor'', ''team_leader'']
           \<or> service tech_a \<in> set [''maintenance'', ''supervisor'', ''team_leader'']"
    by code_simp
  have b: "issue_by_issue_id (store_of [an_issue]) ''ISS001'' = Some an_issue"
    by code_simp
  have c: "status an_issue = ''reported'' \<or> status an_issue = ''assigned''"
    by code_simp
  note t = assign_issue_success [OF a b c, of clk0]
  note d = t [THEN conjunct1]
  note e = t [THEN conjunct2, THEN conjunct2, THEN conjunct2, THEN conjunct1]
  show ?thesis
    by (rule conjI [OF a conjI [OF b conjI [OF c conjI [OF d e]]]])
qed

section \<open>Closing\<close>

text \<open>
  Claim C10. When \<^verbatim>\<open>close_issue\<close> succeeds on an issue of the store, the issue it returns
  is the stored one with four columns written: status closed, \<^verbatim>\<open>closed_at\<close> the time of
  the call, the resolution of the request and, only when the request carries a non-empty
  \<^verbatim>\<open>problem_description\<close>, that description; when the request has none or an empty one,
  the stored description stays. Primary key, id, machine reference, description, urgency,
  reporter, assigned technician, \<^verbatim>\<open>created_at\<close> and \<^verbatim>\<open>accepted_at\<close> are as before. The
  store holds the new issue in place of the old, with one note appended whose text
  carries the (non-empty) resolution; users and machines are as before.
\<close>

theorem close_issue_frame:
  assumes "issue_by_issue_id st iid = Some i"
      and "fst (close_issue clk u (iid, res, pd) st) = Inr i'"
  shows "i' = i\<lparr>status := ''closed'', closed_at := Some (fst clk), resolution := res,
                 problem_description := (if truthy pd then pd else problem_description i)\<rparr>
       \<and> (\<not> truthy pd \<longrightarrow> problem_description i' = problem_description i)
       \<and> id_issue i' = id_issue i \<and> issue_id i' = issue_id i
       \<and> machine_id i' = machine_id i \<and> description i' = description i
       \<and> urgency i' = urgency i \<and> reporter_id i' = reporter_id i
       \<and> assigned_tech_id i' = assigned_tech_id i
       \<and> created_at i' = created_at i \<and> accepted_at i' = accepted_at i
       \<and> issues (snd (close_issue clk u (iid, res, pd) st))
           = map (\<lambda>j. if id_issue j = id_issue i then i' else j) (issues st)
       \<and> issue_by_issue_id (snd (close_issue clk u (iid, res, pd) st)) iid = Some i'
       \<and> users (snd (close_issue clk u (iid, res, pd) st)) = users st
       \<and> machines (snd (close_issue clk u (iid, res, pd) st)) = machines st
       \<and> (\<exists>r. res = Some r \<and> r \<noteq> []
             \<and> notes_table (snd (close_issue clk u (iid, res, pd) st))
                 = notes_table st @
                   [\<lparr>id_note = next_pk (map id_note (notes_table st)),
                     text_note = ''Issue closed. Resolution: '' @ r,
                     created_at_note = snd clk, issue_id_note = id_issue i,
                     author_id = id_user u\<rparr>])"
proof -
  let ?i' = "i\<lparr>status := ''closed'', closed_at := Some (fst clk), resolution := res,
                 problem_description := (if truthy pd then pd else problem_description i)\<rparr>"
  from assms obtain r where r: "res = Some r" "r \<noteq> []"
    by (auto simp: close_issue_def role_required_def close_issue_body_def Let_def
             split: if_splits option.splits)
  have run: "close_issue clk u (iid, res, pd) st
        = (Inr ?i', insert_note (''Issue closed. Resolution: '' @ r) (id_issue i) (id_user u)
                     (snd clk) (commit_issue ?i' st))"
    using assms r
    by (auto simp: close_issue_def role_required_def close_issue_body_def Let_def
             split: if_splits option.splits)
  have i': "i' = ?i'"
    using assms(2) unfolding run by simp
  have "issue_id ?i' = iid"
    using issue_by_issue_id_D [OF assms(1)] by simp
  then have look: "issue_by_issue_id
                     (insert_note (''Issue closed. Resolution: '' @ r) (id_issue i) (id_user u)
                        (snd clk) (commit_issue ?i' st)) iid = Some ?i'"
    using issue_by_issue_id_commit [OF assms(1), of ?i'] by simp
  show ?thesis
    unfolding run i' using look r by (simp add: insert_note_def commit_issue_def)
qed

text \<open>
  The supervisor closes the issue assigned to technician B with a resolution and no
  problem description: the stored description "Seal worn" stays.
\<close>

theorem close_issue_frame_witness:
  "issue_by_issue_id (store_of [assigned_issue]) ''ISS001'' = Some assigned_issue
   \<and> fst (close_issue clk0 supervisor (''ISS001'', Some ''Seal replaced'', None)
            (store_of [assigned_issue]))
       = Inr (assigned_issue\<lparr>status := ''closed'', closed_at := Some (5 * hour),
                              resolution := Some ''Seal replaced''\<rparr>)
   \<and> assigned_issue\<lparr>status := ''closed'', closed_at := Some (5 * hour),
                      resolution := Some ''Seal replaced''\<rparr>
       = assigned_issue\<lparr>status := ''closed'', closed_at := Some (fst clk0),
           resolution := Some ''Seal replaced'',
           problem_description :=
             (if truthy None then None else problem_description assigned_issue)\<rparr>
   \<and> problem_description (assigned_issue\<lparr>status := ''closed'', closed_at := Some (5 * hour),
                              resolution := Some ''Seal replaced''\<rparr>) = Some ''Seal worn''"
proof -
  have a: "issue_by_issue_id (store_of [assigned_issue]) ''ISS001'' = Some assigned_issue"
    by code_simp
  have b: "fst (close_issue clk0 supervisor (''ISS001'', Some ''Seal replaced'', None)
                 (store_of [assigned_issue]))
           = Inr (assigned_issue\<lparr>status := ''closed'', closed_at := Some (5 * hour),
                                  resolution := Some ''Seal replaced''\<rparr>)"
    by code_simp
  have c: "problem_description (assigned_issue\<lparr>status := ''closed'',
              closed_at := Some (5 * hour), resolution := Some ''Seal replaced''\<rparr>)
           = Some ''Seal worn''"
    by code_simp
  note d = close_issue_frame [OF a b, THEN conjunct1]
  show ?thesis
    by (rule conjI [OF a conjI [OF b conjI [OF d c]]])
qed

section \<open>Role checks inside the handlers\<close>

text \<open>
  Claim C1, evaluated. The production user of \<^verbatim>\<open>utils/create_user.py\<close> (service
  production, role technician) sets the status of an issue to closed through
  \<^verbatim>\<open>update_issue_status\<close>: the handler compares the role, not the service, with
  \<^verbatim>\<open>'production'\<close>, so the request is not refused; the issue is written and a note is
  added.
\<close>

theorem update_issue_status_production_service:
  "service prod_user = ''production''
   \<and> fst (update_issue_status clk0 prod_user (''ISS001'', Some ''closed'') (store_of [an_issue]))
       = Inr (an_issue\<lparr>status := ''closed''\<rparr>)
   \<and> issues (snd (update_issue_status clk0 prod_user (''ISS001'', Some ''closed'')
                     (store_of [an_issue])))
       = [an_issue\<lparr>status := ''closed''\<rparr>]
   \<and> map text_note
        (notes_table (snd (update_issue_status clk0 prod_user (''ISS001'', Some ''closed'')
                             (store_of [an_issue]))))
       = [''Status changed to closed'']"
  by code_simp

text \<open>
  Claim C2, evaluated. Technician A of the maintenance service (role technician) closes
  the issue that is assigned to technician B: \<^verbatim>\<open>close_issue\<close> compares the role, not the
  service, with \<^verbatim>\<open>'maintenance'\<close>, so the request is not refused and the issue is closed.
\<close>

theorem close_issue_maintenance_not_assignee:
  "service tech_a = ''maintenance''
   \<and> status assigned_issue = ''assigned''
   \<and> assigned_tech_id assigned_issue = Some (id_user tech_b)
   \<and> id_user tech_a = 2 \<and> id_user tech_b = 3
   \<and> fst (close_issue clk0 tech_a (''ISS001'', Some ''Seal replaced'', None)
            (store_of [assigned_issue]))
       = Inr (assigned_issue\<lparr>status := ''closed'', closed_at := Some (5 * hour),
                              resolution := Some ''Seal replaced''\<rparr>)
   \<and> issues (snd (close_issue clk0 tech_a (''ISS001'', Some ''Seal replaced'', None)
                     (store_of [assigned_issue])))
       = [assigned_issue\<lparr>status := ''closed'', closed_at := Some (5 * hour),
                          resolution := Some ''Seal replaced''\<rparr>]"
  by code_simp

section \<open>The sequence id of a new issue\<close>

text \<open>
  On a store whose ids are well formed the loop collects exactly the numeric suffixes of
  the ids that match the format, and the new id is the specification's.
\<close>

lemma str_remove_no_I:
  "CHR ''I'' \<notin> set s \<Longrightarrow> str_remove ''ISS'' s = s"
  by (induction s) (auto simp: startswith_def)

lemma not_decimal_I: "\<not> is_decimal (CHR ''I'')"
  by code_simp

lemma decimals_no_I: "list_all is_decimal s \<Longrightarrow> CHR ''I'' \<notin> set s"
  using not_decimal_I by (auto simp: list_all_iff)

lemma startswith_ISS: "startswith s ''ISS'' \<Longrightarrow> s = ''ISS'' @ drop 3 s"
  unfolding startswith_def by (metis append_take_drop_id length_Cons list.size(3) numeral_3_eq_3)

lemma str_remove_ISS_prefix: "str_remove ''ISS'' (''ISS'' @ ds) = str_remove ''ISS'' ds"
  by (simp add: startswith_def)

lemma str_remove_well_formed:
  assumes "startswith s ''ISS''" and "list_all is_decimal (drop 3 s)"
  shows "str_remove ''ISS'' s = drop 3 s"
proof -
  have "str_remove ''ISS'' s = str_remove ''ISS'' (''ISS'' @ drop 3 s)"
    using startswith_ISS [OF assms(1)] by simp
  also have "\<dots> = str_remove ''ISS'' (drop 3 s)"
    by (rule str_remove_ISS_prefix)
  also have "\<dots> = drop 3 s"
    by (rule str_remove_no_I [OF decimals_no_I [OF assms(2)]])
  finally show ?thesis .
qed

lemma str_isdigit_decimals:
  "list_all is_decimal s \<Longrightarrow> str_isdigit s \<longleftrightarrow> s \<noteq> []"
  by (auto simp: str_isdigit_def char_isdigit_def list_all_iff)

lemma spec_id_number_other: "\<not> startswith s ''ISS'' \<Longrightarrow> spec_id_number s = None"
  by (simp add: spec_id_number_def)

lemma iss_number_well_formed:
  assumes "startswith s ''ISS''" and "list_all is_decimal (drop 3 s)"
  shows "(let num_str = str_remove ''ISS'' s
          in if str_isdigit num_str
             then (case int_of_str num_str of Inr n \<Rightarrow> n # rest | Inl ValueError \<Rightarrow> rest)
             else rest)
         = (case spec_id_number s of Some n \<Rightarrow> n # rest | None \<Rightarrow> rest)"
  using assms
  by (simp add: str_remove_well_formed Let_def spec_id_number_def str_isdigit_decimals
        int_of_str_def del: str_remove.simps)

lemma iss_numbers_well_formed:
  "list_all (\<lambda>i. well_formed_id (issue_id i)) xs
   \<Longrightarrow> iss_numbers xs = List.map_filter spec_id_number (map issue_id xs)"
proof (induction xs)
  case Nil
  show ?case by (simp add: List.map_filter_simps)
next
  case (Cons i xs)
  then have ih: "iss_numbers xs = List.map_filter spec_id_number (map issue_id xs)"
    and wf: "well_formed_id (issue_id i)"
    by simp_all
  show ?case
  proof (cases "startswith (issue_id i) ''ISS''")
    case False
    then show ?thesis
      by (simp add: ih List.map_filter_simps spec_id_number_other)
  next
    case True
    then have dec: "list_all is_decimal (drop 3 (issue_id i))"
      using wf by (simp add: well_formed_id_def)
    show ?thesis
      using True iss_number_well_formed [OF True dec, of "iss_numbers xs"]
      by (simp add: ih List.map_filter_simps split: option.splits)
  qed
qed

lemma new_issue_id_well_formed:
  "list_all (\<lambda>i. well_formed_id (issue_id i)) xs \<Longrightarrow> new_issue_id xs = spec_new_issue_id xs"
  by (simp add: new_issue_id_def spec_new_issue_id_def iss_numbers_well_formed Let_def)

text \<open>The examples of the specification: after ISS001 to ISS007 comes ISS008; the first id is ISS001.\<close>

lemma new_issue_id_examples:
  "new_issue_id (map (\<lambda>k. an_issue\<lparr>id_issue := k, issue_id := ''ISS'' @ format_03d k\<rparr>)
                  [1, 2, 3, 4, 5, 6, 7]) = ''ISS008''
   \<and> new_issue_id [] = ''ISS001''"
  by code_simp


lemma set_paginate: "set (paginate pg per rows) \<subseteq> set rows"
  unfolding paginate_def Let_def
  by (meson set_take_subset set_drop_subset subset_trans)

lemma set_ordered: "set (ordered rows) = set rows"
  by (simp add: ordered_def)

lemma length_ordered: "length (ordered rows) = length rows"
  by (simp add: ordered_def)

lemma paginate_all:
  assumes "pg \<le> 1" and "int (length rows) \<le> per"
  shows "paginate pg per rows = rows"
proof (cases "rows = []")
  case True
  then show ?thesis by (simp add: paginate_def Let_def)
next
  case False
  then have "1 \<le> per" using assms(2) by (cases rows) auto
  then show ?thesis
    using assms by (auto simp: paginate_def Let_def)
qed

lemma base_query_iff:
  "(i, n) \<in> set (base_query st)
   \<longleftrightarrow> i \<in> set (issues st)
       \<and> (\<exists>m. m \<in> set (machines st) \<and> machine_id i = machine_id_machine m \<and> n = name_machine m)"
  by (auto simp: base_query_def)

section \<open>Visibility of the issue listing\<close>

text \<open>
  Claim C7, as amended. (1) Every row listed for a caller of the production service is an
  issue reported by the caller. (2) For a caller of the maintenance service the query
  is the base query under the filters of the query string alone: no condition on
  reporter or assignee. (3) The base query is an inner join with the machines: it holds
  an issue, with a machine's name, exactly when the issue is in the store and a machine
  of the store has its machine id. (4) The page listed is part of the query, the total
  is the size of the query, and (5) on page 1 with a page size that covers the query
  the listing holds every row of the query.
\<close>

theorem get_issues_visibility:
  "(service u = ''production'' \<and> r \<in> set (fst (get_issues sd u q st))
      \<longrightarrow> reporter_id (fst r) = id_user u)
   \<and> (service u = ''maintenance''
      \<longrightarrow> filtered_query sd u q st
          = filter (\<lambda>r. status_filter (status_arg q) (fst r)
                       \<and> urgency_filter (urgency_arg q) (fst r)
                       \<and> machine_filter (machine_id_arg q) (fst r)
                       \<and> date_filter sd (date_arg q) (fst r))
              (base_query st))
   \<and> ((i, n) \<in> set (base_query st)
        \<longleftrightarrow> i \<in> set (issues st)
            \<and> (\<exists>m. m \<in> set (machines st) \<and> machine_id i = machine_id_machine m
                    \<and> n = name_machine m))
   \<and> set (fst (get_issues sd u q st)) \<subseteq> set (filtered_query sd u q st)
   \<and> snd (get_issues sd u q st) = length (filtered_query sd u q st)
   \<and> (page q \<le> 1 \<and> int (length (filtered_query sd u q st)) \<le> per_page q
      \<longrightarrow> set (fst (get_issues sd u q st)) = set (filtered_query sd u q st))"
proof -
  have sub: "set (fst (get_issues sd u q st)) \<subseteq> set (filtered_query sd u q st)"
    using set_paginate [of "page q" "per_page q" "ordered (filtered_query sd u q st)"]
    by (simp add: get_issues_def Let_def set_ordered)
  have prod: "service u = ''production'' \<and> r \<in> set (fst (get_issues sd u q st))
      \<longrightarrow> reporter_id (fst r) = id_user u"
  proof (intro impI, elim conjE)
    assume s: "service u = ''production''" and "r \<in> set (fst (get_issues sd u q st))"
    then have "r \<in> set (filtered_query sd u q st)" using sub by blast
    then have "role_filter u (fst r)" by (simp add: filtered_query_def)
    then show "reporter_id (fst r) = id_user u" using s by (simp add: role_filter_def)
  qed
  have maint: "service u = ''maintenance''
      \<longrightarrow> filtered_query sd u q st
          = filter (\<lambda>r. status_filter (status_arg q) (fst r)
                       \<and> urgency_filter (urgency_arg q) (fst r)
                       \<and> machine_filter (machine_id_arg q) (fst r)
                       \<and> date_filter sd (date_arg q) (fst r))
              (base_query st)"
    by (simp add: filtered_query_def role_filter_def)
  have total: "snd (get_issues sd u q st) = length (filtered_query sd u q st)"
    by (simp add: get_issues_def Let_def)
  have whole: "page q \<le> 1 \<and> int (length (filtered_query sd u q st)) \<le> per_page q
      \<longrightarrow> set (fst (get_issues sd u q st)) = set (filtered_query sd u q st)"
    using paginate_all [of "page q" "ordered (filtered_query sd u q st)" "per_page q"]
    by (simp add: get_issues_def Let_def set_ordered length_ordered)
  show ?thesis
    using prod maint base_query_iff [of i n st] sub total whole
    by (intro conjI)
qed

text \<open>
  The store holds the production user's issue and the supervisor's. The production user
  is shown their own issue, and its reporter is the production user; technician A is
  shown the whole query, which is the base query under the (empty) filters.
\<close>

theorem get_issues_visibility_witness:
  "service prod_user = ''production''
   \<and> (an_issue, ''Press'')
       \<in> set (fst (get_issues no_date prod_user q_all (store_of [an_issue, supervisor_issue])))
   \<and> reporter_id (fst (an_issue, ''Press'')) = id_user prod_user
   \<and> fst (get_issues no_date prod_user q_all (store_of [an_issue, supervisor_issue]))
       = [(an_issue, ''Press'')]
   \<and> service tech_a = ''maintenance''
   \<and> filtered_query no_date tech_a q_all (store_of [an_issue, supervisor_issue])
       = filter (\<lambda>r. status_filter (status_arg q_all) (fst r)
                    \<and> urgency_filter (urgency_arg q_all) (fst r)
                    \<and> machine_filter (machine_id_arg q_all) (fst r)
                    \<and> date_filter no_date (date_arg q_all) (fst r))
           (base_query (store_of [an_issue, supervisor_issue]))
   \<and> page q_all \<le> 1
   \<and> int (length (filtered_query no_date tech_a q_all (store_of [an_issue, supervisor_issue])))
       \<le> per_page q_all
   \<and> set (fst (get_issues no_date tech_a q_all (store_of [an_issue, supervisor_issue])))
       = set (filtered_query no_date tech_a q_all (store_of [an_issue, supervisor_issue]))
   \<and> fst (get_issues no_date tech_a q_all (store_of [an_issue, supervisor_issue]))
       = [(supervisor_issue, ''Press''), (an_issue, ''Press'')]"
proof -
  have a: "service prod_user = ''production''"
    by code_simp
  have b: "(an_issue, ''Press'')
       \<in> set (fst (get_issues no_date prod_user q_all (store_of [an_issue, supervisor_issue])))"
    by code_simp
  have c: "fst (get_issues no_date prod_user q_all (store_of [an_issue, supervisor_issue]))
       = [(an_issue, ''Press'')]"
    by code_simp
  have d: "service tech_a = ''maintenance''"
    by code_simp
  have e: "page q_all \<le> 1"
    by code_simp
  have f: "int (length (filtered_query no_date tech_a q_all
                         (store_of [an_issue, supervisor_issue]))) \<le> per_page q_all"
    by code_simp
  have g: "fst (get_issues no_date tech_a q_all (store_of [an_issue, supervisor_issue]))
       = [(supervisor_issue, ''Press''), (an_issue, ''Press'')]"
    by code_simp
  note t1 = get_issues_visibility [THEN conjunct1, THEN mp, OF conjI, OF a b]
  note t2 = get_issues_visibility [THEN conjunct2, THEN conjunct1, THEN mp, OF d]
  note t3 = get_issues_visibility [THEN conjunct2, THEN conjunct2, THEN conjunct2,
              THEN conjunct2, THEN conjunct2, THEN mp, OF conjI, OF e f]
  show ?thesis
    by (rule conjI [OF a conjI [OF b conjI [OF t1 conjI [OF c conjI [OF d conjI [OF t2
          conjI [OF e conjI [OF f conjI [OF t3 g]]]]]]]]])
qed

text \<open>
  Claim C7 as stated fails where an issue's machine id names no machine: the issue is in
  the store, the caller is of the maintenance service, the query string has no filter,
  and the listing is empty.
\<close>

theorem get_issues_maintenance_counterexample:
  "service tech_a = ''maintenance''
   \<and> issues (store_of [an_issue\<lparr>machine_id := ''MACH999''\<rparr>])
       = [an_issue\<lparr>machine_id := ''MACH999''\<rparr>]
   \<and> map machine_id_machine (machines (store_of [an_issue\<lparr>machine_id := ''MACH999''\<rparr>]))
       = [''MACH001'']
   \<and> status_arg q_all = None \<and> urgency_arg q_all = None \<and> machine_id_arg q_all = None
   \<and> date_arg q_all = None \<and> page q_all = 1 \<and> per_page q_all = 10
   \<and> get_issues no_date tech_a q_all (store_of [an_issue\<lparr>machine_id := ''MACH999''\<rparr>])
       = ([], 0)"
  by code_simp

section \<open>Analytics: the averages\<close>














section \<open>Accepting times on stores built by the handlers\<close>

text \<open>
  Every handler that writes keeps the invariant that an issue with an assigned technician
  has an accepting time, and under the invariant each closed issue of a technician has
  one: the condition of the technician average holds on every store the handlers build
  from a store that has the invariant, the empty one for instance.
\<close>

lemma issue_by_issue_id_mem:
  "issue_by_issue_id st iid = Some i \<Longrightarrow> i \<in> set (issues st)"
  unfolding issue_by_issue_id_def by (auto simp: find_Some_iff)

lemma accepted_when_assigned_commit:
  assumes "accepted_when_assigned st"
      and "assigned_tech_id i' = None \<or> accepted_at i' \<noteq> None"
  shows "accepted_when_assigned (insert_note txt k a t (commit_issue i' st))"
  using assms
  by (auto simp: accepted_when_assigned_def insert_note_def commit_issue_def list_all_iff)

lemma accepted_when_assigned_create:
  "accepted_when_assigned st \<Longrightarrow> accepted_when_assigned (snd (create_issue clk u args st))"
  by (auto simp: create_issue_def role_required_def create_issue_body_def Let_def
        accepted_when_assigned_def split: option.splits prod.splits)

lemma accepted_when_assigned_assign:
  "accepted_when_assigned st \<Longrightarrow> accepted_when_assigned (snd (assign_issue clk u iid st))"
  by (auto simp: assign_issue_def role_required_def assign_issue_body_def Let_def
        accepted_when_assigned_commit split: option.splits)

lemma accepted_when_assigned_update:
  assumes "accepted_when_assigned st"
  shows "accepted_when_assigned (snd (update_issue_status clk u args st))"
proof (cases "issue_by_issue_id st (fst args)")
  case None
  then show ?thesis using assms by (simp add: update_issue_status_def)
next
  case (Some i)
  then have "assigned_tech_id i = None \<or> accepted_at i \<noteq> None"
    using assms issue_by_issue_id_mem [OF Some]
    by (auto simp: accepted_when_assigned_def list_all_iff)
  then show ?thesis
    using assms Some
    by (auto simp: update_issue_status_def Let_def accepted_when_assigned_commit
          split: option.splits)
qed

lemma accepted_when_assigned_close:
  assumes "accepted_when_assigned st"
  shows "accepted_when_assigned (snd (close_issue clk u args st))"
proof (cases "issue_by_issue_id st (fst args)")
  case None
  then show ?thesis
    using assms
    by (auto simp: close_issue_def role_required_def close_issue_body_def split: prod.splits)
next
  case (Some i)
  then have "assigned_tech_id i = None \<or> accepted_at i \<noteq> None"
    using assms issue_by_issue_id_mem [OF Some]
    by (auto simp: accepted_when_assigned_def list_all_iff)
  then show ?thesis
    using assms Some
    by (auto simp: close_issue_def role_required_def close_issue_body_def Let_def
          accepted_when_assigned_commit split: option.splits prod.splits)
qed

lemma accepted_when_assigned_technician:
  "accepted_when_assigned st
   \<Longrightarrow> list_all (\<lambda>i. accepted_at i \<noteq> None) (tech_closed_issues st tech)"
  by (auto simp: accepted_when_assigned_def tech_closed_issues_def list_all_iff)

end
